theory Spec2Isabelle
  imports Main "HOL-Library.Word"
begin

section \<open>JavaScript strings and the regular expressions of the validator\<close>

text \<open>
  A JavaScript string is a sequence of UTF-16 code units. The patterns of
  \<open>validateInput\<close> carry no \<open>u\<close>, \<open>i\<close> or \<open>m\<close> flag, so they are matched code
  unit by code unit, \<open>^\<close> is the start of the input and \<open>$\<close> its end.
\<close>

type_synonym jschar = "16 word"
type_synonym jsstring = "jschar list"

text \<open>The code units of a string literal of the source (all of them ASCII).\<close>

definition ascii :: "string \<Rightarrow> jsstring" where
  "ascii = map (\<lambda>c. of_nat (of_char c))"

text \<open>
  \<open>\s\<close> of ECMAScript: the WhiteSpace and LineTerminator code points
  (TAB, LF, VT, FF, CR, SP, NBSP, U+1680, U+2000..U+200A, U+2028, U+2029, U+202F,
  U+205F, U+3000, U+FEFF).
\<close>

definition is_space :: "jschar \<Rightarrow> bool" where
  "is_space c =
     ((0x0009 \<le> c \<and> c \<le> 0x000D) \<or> c = 0x0020 \<or> c = 0x00A0 \<or> c = 0x1680 \<or>
      (0x2000 \<le> c \<and> c \<le> 0x200A) \<or> c = 0x2028 \<or> c = 0x2029 \<or> c = 0x202F \<or>
      c = 0x205F \<or> c = 0x3000 \<or> c = 0xFEFF)"

text \<open>\<open>\d\<close> of ECMAScript: the ten ASCII digits.\<close>

definition is_digit :: "jschar \<Rightarrow> bool" where
  "is_digit c = (0x0030 \<le> c \<and> c \<le> 0x0039)"

text \<open>The members of a bracketed class: a single character, a range, or \<open>\s\<close>.\<close>

datatype class_item = Single jschar | Span jschar jschar | Space

fun in_item :: "class_item \<Rightarrow> jschar \<Rightarrow> bool" where
  "in_item (Single a) c = (c = a)"
| "in_item (Span a b) c = (a \<le> c \<and> c \<le> b)"
| "in_item Space c = is_space c"

text \<open>
  An atom consumes one code unit: a literal character (\<open>@\<close>, \<open>\.\<close>, \<open>\+\<close>), \<open>\d\<close>, a
  class \<open>[...]\<close> or a negated class \<open>[^...]\<close>.
\<close>

datatype atom = Chr jschar | Digit | Class "class_item list" | NotClass "class_item list"

fun atom_ok :: "atom \<Rightarrow> jschar \<Rightarrow> bool" where
  "atom_ok (Chr a) c = (c = a)"
| "atom_ok Digit c = is_digit c"
| "atom_ok (Class items) c = list_ex (\<lambda>i. in_item i c) items"
| "atom_ok (NotClass items) c = (\<not> list_ex (\<lambda>i. in_item i c) items)"

text \<open>
  A quantifier: none, \<open>+\<close>, \<open>?\<close> or \<open>{m,n}\<close>. \<open>q_min\<close> and \<open>q_max\<close> are the fewest and
  the most repetitions it allows on an input of a given length.
\<close>

datatype quant = Once | Plus | Opt | Between nat nat

fun q_min :: "quant \<Rightarrow> nat" where
  "q_min Once = 1"
| "q_min Plus = 1"
| "q_min Opt = 0"
| "q_min (Between m n) = m"

fun q_max :: "quant \<Rightarrow> nat \<Rightarrow> nat" where
  "q_max Once len = 1"
| "q_max Plus len = len"
| "q_max Opt len = 1"
| "q_max (Between m n) len = n"

text \<open>
  Every pattern of the source is \<open>^t1 t2 ... tk$\<close>, each term a quantified atom. The
  matcher tries, for the first term, every allowed number of repetitions, the largest
  first as a greedy quantifier does, and matches the remaining terms against the rest;
  after the last term the input must be used up (\<open>$\<close>).
\<close>

type_synonym regex = "(atom \<times> quant) list"

fun match_terms :: "regex \<Rightarrow> jsstring \<Rightarrow> bool" where
  "match_terms [] s = (s = [])"
| "match_terms ((a, q) # ts) s =
     list_ex (\<lambda>k. list_all (atom_ok a) (take k s) \<and> match_terms ts (drop k s))
       (rev [q_min q ..< Suc (min (q_max q (length s)) (length s))])"

text \<open>\<open>regex.test(s)\<close> for an anchored pattern.\<close>

definition test :: "regex \<Rightarrow> jsstring \<Rightarrow> bool" where
  "test r s = match_terms r s"

text \<open>
  \<open>s.replace(/[...]/g, '')\<close>: every code unit that the class matches is removed.
\<close>

definition replace_all_empty :: "atom \<Rightarrow> jsstring \<Rightarrow> jsstring" where
  "replace_all_empty a s = filter (\<lambda>c. \<not> atom_ok a c) s"

text \<open>\<open>/^[a-zA-Z\s]+$/\<close>\<close>

definition name_re :: regex where
  "name_re = [(Class [Span 0x61 0x7A, Span 0x41 0x5A, Space], Plus)]"

text \<open>\<open>/^[^\s@]+@[^\s@]+\.[^\s@]+$/\<close>\<close>

definition email_re :: regex where
  "email_re =
     [(NotClass [Space, Single 0x40], Plus), (Chr 0x40, Once),
      (NotClass [Space, Single 0x40], Plus), (Chr 0x2E, Once),
      (NotClass [Space, Single 0x40], Plus)]"

text \<open>\<open>/^\+?\d{10,15}$/\<close>\<close>

definition phone_re :: regex where
  "phone_re = [(Chr 0x2B, Opt), (Digit, Between 10 15)]"

text \<open>\<open>/[-()\s]/g\<close>\<close>

definition phone_strip :: atom where
  "phone_strip = Class [Single 0x2D, Single 0x28, Single 0x29, Space]"

section \<open>validateInput\<close>

text \<open>
  The request body after \<open>express.json()\<close>: each of the five fields is a string or is
  missing (\<open>undefined\<close> or \<open>null\<close>, both falsy: \<open>None\<close>).
\<close>

record order_body =
  name :: "jsstring option"
  email :: "jsstring option"
  phone :: "jsstring option"
  service :: "jsstring option"
  details :: "jsstring option"

text \<open>\<open>{ isValid: true }\<close> or \<open>{ isValid: false, error: msg }\<close>.\<close>

datatype validation = Valid | Invalid string

text \<open>
  \<open>!v\<close> is true for \<open>undefined\<close> and for the empty string. The destructured fields
  are read only after the presence test, where each of them is a non-empty string.
\<close>

definition validateInput :: "order_body \<Rightarrow> validation" where
  "validateInput data =
     (case (name data, email data, phone data, service data, details data) of
        (Some nm, Some em, Some ph, Some sv, Some dt) \<Rightarrow>
          if nm = [] \<or> em = [] \<or> ph = [] \<or> sv = [] \<or> dt = []
          then Invalid ''All fields are required.''
          else if \<not> test name_re nm
          then Invalid ''Name must contain only letters and spaces.''
          else if \<not> test email_re em
          then Invalid ''Invalid email format.''
          else if \<not> test phone_re (replace_all_empty phone_strip ph)
          then Invalid ''Invalid phone number.''
          else Valid
      | _ \<Rightarrow> Invalid ''All fields are required.'')"

section \<open>The collaborators: orders table, mail transport, console\<close>

text \<open>A row of the table \<open>orders\<close>.\<close>

record stored_order =
  row_id :: nat
  row_name :: jsstring
  row_email :: jsstring
  row_phone :: jsstring
  row_service :: jsstring
  row_details :: jsstring
  created_at :: jsstring

text \<open>
  A template literal is a sequence of literal chunks and interpolated values (the
  indentation inside the literals is left out).
\<close>

datatype piece = Lit string | Val jsstring

record mail =
  mail_from :: "jsstring option"
  mail_to :: jsstring
  subject :: string
  text_of :: "piece list"

text \<open>
  What a request can change: the table with its AUTOINCREMENT counter, the mails handed
  to \<open>transporter.sendMail\<close> and the lines written to the console (their fixed prefix).
\<close>

record world =
  orders :: "stored_order list"
  sqlite_sequence :: nat
  outbox :: "mail list"
  console :: "string list"

text \<open>
  What the collaborators report for one request: whether \<open>db.run\<close> and each
  \<open>sendMail\<close> call their callback with an error, the store's \<open>CURRENT_TIMESTAMP\<close>,
  \<open>new Date().toISOString()\<close> and the configured \<open>EMAIL_USER\<close>.
\<close>

record env =
  db_err :: bool
  admin_mail_err :: bool
  customer_mail_err :: bool
  current_timestamp :: jsstring
  date_iso :: jsstring
  emailUser :: "jsstring option"

definition console_log :: "string \<Rightarrow> world \<Rightarrow> world" where
  "console_log line w = w\<lparr>console := console w @ [line]\<rparr>"

text \<open>
  \<open>db.run(`INSERT INTO orders (name, email, phone, service, details) VALUES (?, ?, ?, ?, ?)`, [...], cb)\<close>:
  on failure nothing is stored; on success one row is appended with the next id and
  the default \<open>created_at\<close>. The first component is the callback's \<open>err\<close>.
\<close>

definition db_run_insert ::
  "env \<Rightarrow> jsstring \<times> jsstring \<times> jsstring \<times> jsstring \<times> jsstring \<Rightarrow> world \<Rightarrow> bool \<times> world" where
  "db_run_insert e vals w =
     (case vals of (n, em, ph, sv, dt) \<Rightarrow>
        if db_err e then (True, w)
        else (False,
              w\<lparr>orders := orders w @
                   [\<lparr>row_id = Suc (sqlite_sequence w), row_name = n, row_email = em,
                     row_phone = ph, row_service = sv, row_details = dt,
                     created_at = current_timestamp e\<rparr>],
                 sqlite_sequence := Suc (sqlite_sequence w)\<rparr>))"

text \<open>
  \<open>transporter.sendMail(options, cb)\<close>: the attempt is recorded; the first component
  is the callback's \<open>error\<close>.
\<close>

definition sendMail :: "bool \<Rightarrow> mail \<Rightarrow> world \<Rightarrow> bool \<times> world" where
  "sendMail err m w = (err, w\<lparr>outbox := outbox w @ [m]\<rparr>)"

section \<open>The handler of POST /api/orders\<close>

datatype json = ErrorJson string | MessageJson string

record response =
  status :: nat
  body :: json

definition res :: "nat \<Rightarrow> json \<Rightarrow> response" where
  "res st j = \<lparr>status = st, body = j\<rparr>"

text \<open>The mail to the administrator (both files).\<close>

definition mailOptionsAdmin ::
  "env \<Rightarrow> jsstring \<Rightarrow> jsstring \<Rightarrow> jsstring \<Rightarrow> jsstring \<Rightarrow> jsstring \<Rightarrow> mail" where
  "mailOptionsAdmin e sanitizedName sanitizedEmail sanitizedPhone sanitizedService sanitizedDetails =
     \<lparr>mail_from = emailUser e,
      mail_to = ascii ''trekuray@gmail.com'',
      subject = ''New Order from Dziquist Website'',
      text_of =
        [Lit ''New Order Received:'',
         Lit ''Name: '', Val sanitizedName,
         Lit ''Email: '', Val sanitizedEmail,
         Lit ''Phone: '', Val sanitizedPhone,
         Lit ''Service: '', Val sanitizedService,
         Lit ''Details: '', Val sanitizedDetails,
         Lit ''Timestamp: '', Val (date_iso e)]\<rparr>"

text \<open>The confirmation to the customer (\<open>src/unnamed/part_000\<close> only).\<close>

definition mailOptionsCustomer ::
  "env \<Rightarrow> jsstring \<Rightarrow> jsstring \<Rightarrow> jsstring \<Rightarrow> jsstring \<Rightarrow> jsstring \<Rightarrow> mail" where
  "mailOptionsCustomer e sanitizedName sanitizedEmail sanitizedPhone sanitizedService sanitizedDetails =
     \<lparr>mail_from = emailUser e,
      mail_to = sanitizedEmail,
      subject = ''Order Confirmation - Dziquist Transport'',
      text_of =
        [Lit ''Dear '', Val sanitizedName, Lit '','',
         Lit ''Thank you for your order with Dziquist Transport and Logistics!'',
         Lit ''Order Details:'',
         Lit ''- Service: '', Val sanitizedService,
         Lit ''- Details: '', Val sanitizedDetails,
         Lit ''- Phone: '', Val sanitizedPhone,
         Lit ''We will contact you shortly to confirm. For any queries, reply to this email or call us.'',
         Lit ''Best,'',
         Lit ''Dziquist Transport Team'']\<rparr>"

text \<open>
  \<open>src/server.js\<close>. \<open>sanitizeHtml\<close> is the function of the package \<open>sanitize-html\<close>,
  a parameter here; it is applied to the fields as submitted. The callbacks of
  \<open>db.run\<close> and \<open>sendMail\<close> run in sequence, so the handler is a function from the
  world before the request to the response and the world after it.
\<close>

definition post_orders_server ::
  "(jsstring option \<Rightarrow> jsstring) \<Rightarrow> env \<Rightarrow> order_body \<Rightarrow> world \<Rightarrow> response \<times> world" where
  "post_orders_server sanitizeHtml e req_body w0 =
     (let w = console_log ''Received POST request:'' w0 in
      case validateInput req_body of
        Invalid err \<Rightarrow> (res 400 (ErrorJson err), w)
      | Valid \<Rightarrow>
         (let sanitizedName = sanitizeHtml (name req_body);
              sanitizedEmail = sanitizeHtml (email req_body);
              sanitizedPhone = sanitizeHtml (phone req_body);
              sanitizedService = sanitizeHtml (service req_body);
              sanitizedDetails = sanitizeHtml (details req_body)
          in (case db_run_insert e
                 (sanitizedName, sanitizedEmail, sanitizedPhone, sanitizedService, sanitizedDetails) w of
               (True, w1) \<Rightarrow>
                 (res 500 (ErrorJson ''Failed to save order.''),
                  console_log ''Database insert error:'' w1)
             | (False, w1) \<Rightarrow>
                 (case sendMail (admin_mail_err e)
                    (mailOptionsAdmin e sanitizedName sanitizedEmail sanitizedPhone
                       sanitizedService sanitizedDetails) w1 of
                    (True, w2) \<Rightarrow>
                      (res 200 (MessageJson ''Order saved, but failed to send email.''),
                       console_log ''Email sending error:'' w2)
                  | (False, w2) \<Rightarrow>
                      (res 200 (MessageJson ''Order submitted successfully!''),
                       console_log ''Email sent successfully:'' w2)))))"

text \<open>
  \<open>src/unnamed/part_000\<close>: the administrator's mail is sent and its error only logged;
  the response is written in the callback of the customer's mail.
\<close>

definition post_orders_part_000 ::
  "(jsstring option \<Rightarrow> jsstring) \<Rightarrow> env \<Rightarrow> order_body \<Rightarrow> world \<Rightarrow> response \<times> world" where
  "post_orders_part_000 sanitizeHtml e req_body w0 =
     (let w = console_log ''Received POST request:'' w0 in
      case validateInput req_body of
        Invalid err \<Rightarrow> (res 400 (ErrorJson err), w)
      | Valid \<Rightarrow>
         (let sanitizedName = sanitizeHtml (name req_body);
              sanitizedEmail = sanitizeHtml (email req_body);
              sanitizedPhone = sanitizeHtml (phone req_body);
              sanitizedService = sanitizeHtml (service req_body);
              sanitizedDetails = sanitizeHtml (details req_body)
          in (case db_run_insert e
                 (sanitizedName, sanitizedEmail, sanitizedPhone, sanitizedService, sanitizedDetails) w of
               (True, w1) \<Rightarrow>
                 (res 500 (ErrorJson ''Failed to save order.''),
                  console_log ''Database insert error:'' w1)
             | (False, w1) \<Rightarrow>
                 (case sendMail (admin_mail_err e)
                    (mailOptionsAdmin e sanitizedName sanitizedEmail sanitizedPhone
                       sanitizedService sanitizedDetails) w1 of
                    (adminError, w2) \<Rightarrow>
                     (let w3 = (if adminError
                                then console_log ''Admin email sending error:'' w2 else w2)
                      in (case sendMail (customer_mail_err e)
                           (mailOptionsCustomer e sanitizedName sanitizedEmail sanitizedPhone
                              sanitizedService sanitizedDetails) w3 of
                           (True, w4) \<Rightarrow>
                             (res 200 (MessageJson
                                ''Order saved, but failed to send customer confirmation.''),
                              console_log ''Customer email sending error:'' w4)
                         | (False, w4) \<Rightarrow>
                             (res 200 (MessageJson ''Order submitted successfully!''),
                              console_log ''Customer email sent successfully'' w4)))))))"

section \<open>The specification's reading of the rules\<close>

text \<open>ASCII letters, and the ASCII punctuation characters (\<open>!\<close> to \<open>/\<close>, \<open>:\<close> to \<open>@\<close>,
  \<open>[\<close> to \<open>`\<close>, \<open>{\<close> to \<open>~\<close>).\<close>

definition is_letter :: "jschar \<Rightarrow> bool" where
  "is_letter c = ((0x41 \<le> c \<and> c \<le> 0x5A) \<or> (0x61 \<le> c \<and> c \<le> 0x7A))"


text \<open>
  The phone rule in the specification's words: the input with every hyphen,
  parenthesis and whitespace character removed ...
\<close>

definition spec_strip :: "jsstring \<Rightarrow> jsstring" where
  "spec_strip s = filter (\<lambda>c. c \<noteq> 0x2D \<and> c \<noteq> 0x28 \<and> c \<noteq> 0x29 \<and> \<not> is_space c) s"

text \<open>... is an optional leading \<open>+\<close> followed by 10 to 15 digits.\<close>

definition spec_phone_pattern :: "jsstring \<Rightarrow> bool" where
  "spec_phone_pattern t =
     (let ds = (case t of [] \<Rightarrow> [] | c # r \<Rightarrow> if c = 0x2B then r else t)
      in 10 \<le> length ds \<and> length ds \<le> 15 \<and> list_all is_digit ds)"







text \<open>
  The StoredOrder of a submission: the output of the sanitizer on each submitted field,
  the next id of the table and the store's timestamp.
\<close>

definition sanitized_row ::
  "(jsstring option \<Rightarrow> jsstring) \<Rightarrow> env \<Rightarrow> world \<Rightarrow> order_body \<Rightarrow> stored_order" where
  "sanitized_row sanitizeHtml e w data =
     \<lparr>row_id = Suc (sqlite_sequence w),
      row_name = sanitizeHtml (name data),
      row_email = sanitizeHtml (email data),
      row_phone = sanitizeHtml (phone data),
      row_service = sanitizeHtml (service data),
      row_details = sanitizeHtml (details data),
      created_at = current_timestamp e\<rparr>"

section \<open>Example submissions\<close>

text \<open>The submission of the specification's end-to-end example, and variations of it.\<close>

definition jane_doe :: order_body where
  "jane_doe =
     \<lparr>name = Some (ascii ''Jane Doe''), email = Some (ascii ''jane@example.com''),
      phone = Some (ascii ''555-123-4567''), service = Some (ascii ''Moving''),
      details = Some (ascii ''3 boxes'')\<rparr>"

definition not_an_email :: order_body where
  "not_an_email = jane_doe\<lparr>email := Some (ascii ''not-an-email'')\<rparr>"


definition paren_phone :: order_body where
  "paren_phone = jane_doe\<lparr>phone := Some (ascii ''(555) 123-4567'')\<rparr>"


definition blank_order :: order_body where
  "blank_order =
     jane_doe\<lparr>name := Some (ascii '' ''), service := Some [0x20, 0x09],
              details := Some [0x0A]\<rparr>"

definition empty_world :: world where
  "empty_world = \<lparr>orders = [], sqlite_sequence = 0, outbox = [], console = []\<rparr>"

definition env_ok :: env where
  "env_ok =
     \<lparr>db_err = False, admin_mail_err = False, customer_mail_err = False,
      current_timestamp = ascii ''2024-05-01 10:00:00'',
      date_iso = ascii ''2024-05-01T10:00:00.000Z'',
      emailUser = Some (ascii ''orders@example.com'')\<rparr>"

text \<open>
  An instance of the sanitizer parameter for the example runs: a string is returned as
  it is, a missing value gives the empty string.
\<close>

definition keep_text :: "jsstring option \<Rightarrow> jsstring" where
  "keep_text v = (case v of None \<Rightarrow> [] | Some s \<Rightarrow> s)"

section \<open>Properties of the matcher\<close>

lemma match_last_term:
  "match_terms [(a, q)] s \<longleftrightarrow>
     q_min q \<le> length s \<and> length s \<le> q_max q (length s) \<and> list_all (atom_ok a) s"
proof -
  have "match_terms [(a, q)] s \<longleftrightarrow>
      (\<exists>k. q_min q \<le> k \<and> k \<le> q_max q (length s) \<and> k \<le> length s \<and>
           list_all (atom_ok a) (take k s) \<and> length s \<le> k)"
    by (auto simp: list_ex_iff)
  also have "\<dots> \<longleftrightarrow> q_min q \<le> length s \<and> length s \<le> q_max q (length s) \<and> list_all (atom_ok a) s"
    by (metis order_antisym order_refl take_all)
  finally show ?thesis .
qed

lemma match_opt_first:
  "match_terms ((Chr a, Opt) # ts) s \<longleftrightarrow>
     match_terms ts s \<or> (case s of [] \<Rightarrow> False | c # r \<Rightarrow> c = a \<and> match_terms ts r)"
proof (cases s)
  case Nil
  then show ?thesis by simp
next
  case (Cons c r)
  then show ?thesis by (auto simp: numeral_2_eq_2)
qed

lemma test_name_re:
  "test name_re s \<longleftrightarrow> s \<noteq> [] \<and> list_all (\<lambda>c. is_letter c \<or> is_space c) s"
proof -
  have "atom_ok (Class [Span 0x61 0x7A, Span 0x41 0x5A, Space]) = (\<lambda>c. is_letter c \<or> is_space c)"
    by (auto simp: is_letter_def fun_eq_iff)
  then show ?thesis
    unfolding test_def name_re_def match_last_term
    by (cases s) auto
qed



lemma plus_not_digit: "\<not> is_digit 0x2B"
  by (simp add: is_digit_def)

lemma strip_eq_spec: "replace_all_empty phone_strip s = spec_strip s"
  unfolding replace_all_empty_def phone_strip_def spec_strip_def
  by (rule filter_cong) auto

lemma atom_ok_Digit: "atom_ok Digit = is_digit"
  by (simp add: fun_eq_iff)

lemma test_phone_re_unfold:
  "test phone_re t \<longleftrightarrow>
     (10 \<le> length t \<and> length t \<le> 15 \<and> list_all is_digit t) \<or>
     (case t of [] \<Rightarrow> False
      | c # r \<Rightarrow> c = 0x2B \<and> 10 \<le> length r \<and> length r \<le> 15 \<and> list_all is_digit r)"
  unfolding test_def phone_re_def match_opt_first match_last_term atom_ok_Digit
  by (simp split: list.splits)

lemma test_phone_re: "test phone_re t \<longleftrightarrow> spec_phone_pattern t"
proof (cases t)
  case Nil
  then show ?thesis
    by (simp add: test_phone_re_unfold spec_phone_pattern_def)
next
  case (Cons c r)
  show ?thesis
  proof (cases "c = 0x2B")
    case True
    with Cons plus_not_digit show ?thesis
      by (auto simp: test_phone_re_unfold spec_phone_pattern_def)
  next
    case False
    with Cons show ?thesis
      by (auto simp: test_phone_re_unfold spec_phone_pattern_def)
  qed
qed

lemma test_email_re_Nil: "\<not> test email_re []"
  by (simp add: test_def email_re_def)

lemma spec_phone_pattern_Nil: "\<not> spec_phone_pattern []"
  by (simp add: spec_phone_pattern_def)

lemma validateInput_present:
  assumes "name data = Some nm" "email data = Some em" "phone data = Some ph"
    "service data = Some sv" "details data = Some dt"
    "nm \<noteq> []" "em \<noteq> []" "ph \<noteq> []" "sv \<noteq> []" "dt \<noteq> []"
  shows "validateInput data =
     (if \<not> test name_re nm then Invalid ''Name must contain only letters and spaces.''
      else if \<not> test email_re em then Invalid ''Invalid email format.''
      else if \<not> test phone_re (replace_all_empty phone_strip ph)
      then Invalid ''Invalid phone number.'' else Valid)"
  using assms by (simp add: validateInput_def)





section \<open>The handlers, case by case\<close>

lemmas handler_defs =
  db_run_insert_def sendMail_def console_log_def Let_def

lemma server_invalid:
  "validateInput b = Invalid r \<Longrightarrow>
   post_orders_server san e b w = (res 400 (ErrorJson r), console_log ''Received POST request:'' w)"
  by (simp add: post_orders_server_def Let_def)

lemma part_000_invalid:
  "validateInput b = Invalid r \<Longrightarrow>
   post_orders_part_000 san e b w = (res 400 (ErrorJson r), console_log ''Received POST request:'' w)"
  by (simp add: post_orders_part_000_def Let_def)

lemma server_db_err:
  "validateInput b = Valid \<Longrightarrow> db_err e \<Longrightarrow>
   post_orders_server san e b w =
     (res 500 (ErrorJson ''Failed to save order.''),
      console_log ''Database insert error:'' (console_log ''Received POST request:'' w))"
  by (simp add: post_orders_server_def handler_defs split: bool.splits)

lemma part_000_db_err:
  "validateInput b = Valid \<Longrightarrow> db_err e \<Longrightarrow>
   post_orders_part_000 san e b w =
     (res 500 (ErrorJson ''Failed to save order.''),
      console_log ''Database insert error:'' (console_log ''Received POST request:'' w))"
  by (simp add: post_orders_part_000_def handler_defs split: bool.splits)

lemma server_saved_response:
  "validateInput b = Valid \<Longrightarrow> \<not> db_err e \<Longrightarrow>
   fst (post_orders_server san e b w) =
     res 200 (MessageJson (if admin_mail_err e then ''Order saved, but failed to send email.''
                           else ''Order submitted successfully!''))"
  by (simp add: post_orders_server_def handler_defs split: bool.splits)

lemma part_000_saved_response:
  "validateInput b = Valid \<Longrightarrow> \<not> db_err e \<Longrightarrow>
   fst (post_orders_part_000 san e b w) =
     res 200 (MessageJson (if customer_mail_err e
                           then ''Order saved, but failed to send customer confirmation.''
                           else ''Order submitted successfully!''))"
  by (simp add: post_orders_part_000_def handler_defs split: bool.splits)

lemma server_saved_orders:
  "validateInput b = Valid \<Longrightarrow> \<not> db_err e \<Longrightarrow>
   orders (snd (post_orders_server san e b w)) = orders w @ [sanitized_row san e w b]"
  by (simp add: post_orders_server_def handler_defs sanitized_row_def split: bool.splits)

lemma part_000_saved_orders:
  "validateInput b = Valid \<Longrightarrow> \<not> db_err e \<Longrightarrow>
   orders (snd (post_orders_part_000 san e b w)) = orders w @ [sanitized_row san e w b]"
  by (simp add: post_orders_part_000_def handler_defs sanitized_row_def split: bool.splits)


lemma console_log_keeps [simp]:
  "orders (console_log l w) = orders w"
  "sqlite_sequence (console_log l w) = sqlite_sequence w"
  "outbox (console_log l w) = outbox w"
  by (simp_all add: console_log_def)

lemma validateInput_jane_doe: "validateInput jane_doe = Valid"
  by code_simp

lemma validateInput_not_an_email: "validateInput not_an_email = Invalid ''Invalid email format.''"
  by code_simp

section \<open>The workflow\<close>




text \<open>
  C2. In both variants the table after the request is the table before it, extended by
  one row exactly when \<open>validateInput\<close> returned \<open>Valid\<close> and the store accepted the
  insert; the fields of that row are the outputs of \<open>sanitizeHtml\<close> on the submitted
  fields.
\<close>
theorem orders_only_valid_and_sanitized:
  "orders (snd (post_orders_server san e b w))
     = (if validateInput b = Valid \<and> \<not> db_err e then orders w @ [sanitized_row san e w b]
        else orders w) \<and>
   orders (snd (post_orders_part_000 san e b w))
     = (if validateInput b = Valid \<and> \<not> db_err e then orders w @ [sanitized_row san e w b]
        else orders w)"
proof (cases "validateInput b")
  case Valid
  then show ?thesis
    by (cases "db_err e")
      (simp_all add: server_db_err part_000_db_err server_saved_orders part_000_saved_orders)
next
  case (Invalid r)
  then show ?thesis
    by (simp add: server_invalid part_000_invalid)
qed

text \<open>The example submission is stored; the one with a bad email is not.\<close>
theorem orders_only_valid_and_sanitized_witness:
  "orders (snd (post_orders_server keep_text env_ok jane_doe empty_world))
     = [\<lparr>row_id = 1, row_name = ascii ''Jane Doe'', row_email = ascii ''jane@example.com'',
         row_phone = ascii ''555-123-4567'', row_service = ascii ''Moving'',
         row_details = ascii ''3 boxes'', created_at = ascii ''2024-05-01 10:00:00''\<rparr>] \<and>
   orders (snd (post_orders_part_000 keep_text env_ok not_an_email empty_world)) = []"
proof -
  have v: "validateInput jane_doe = Valid" by (rule validateInput_jane_doe)
  have d: "\<not> db_err env_ok" by (simp add: env_ok_def)
  have r: "sanitized_row keep_text env_ok empty_world jane_doe
     = \<lparr>row_id = 1, row_name = ascii ''Jane Doe'', row_email = ascii ''jane@example.com'',
         row_phone = ascii ''555-123-4567'', row_service = ascii ''Moving'',
         row_details = ascii ''3 boxes'', created_at = ascii ''2024-05-01 10:00:00''\<rparr>"
    by (simp add: sanitized_row_def keep_text_def jane_doe_def env_ok_def empty_world_def)
  have e: "orders empty_world = []" by (simp add: empty_world_def)
  from orders_only_valid_and_sanitized [of keep_text env_ok jane_doe empty_world]
  have "orders (snd (post_orders_server keep_text env_ok jane_doe empty_world))
      = orders empty_world @ [sanitized_row keep_text env_ok empty_world jane_doe]"
    using v d by simp
  moreover
  from orders_only_valid_and_sanitized [of keep_text env_ok not_an_email empty_world]
  have "orders (snd (post_orders_part_000 keep_text env_ok not_an_email empty_world))
      = orders empty_world"
    by (simp add: validateInput_not_an_email)
  ultimately show ?thesis by (simp add: r e)
qed

text \<open>
  C4. When \<open>validateInput\<close> returns \<open>Invalid reason\<close>, both variants answer 400 with
  that reason, and the table, its id counter and the list of mail attempts are as
  before the request.
\<close>
theorem invalid_request_rejected:
  assumes "validateInput b = Invalid reason"
  shows "fst (post_orders_server san e b w) = res 400 (ErrorJson reason) \<and>
         orders (snd (post_orders_server san e b w)) = orders w \<and>
         sqlite_sequence (snd (post_orders_server san e b w)) = sqlite_sequence w \<and>
         outbox (snd (post_orders_server san e b w)) = outbox w \<and>
         fst (post_orders_part_000 san e b w) = res 400 (ErrorJson reason) \<and>
         orders (snd (post_orders_part_000 san e b w)) = orders w \<and>
         sqlite_sequence (snd (post_orders_part_000 san e b w)) = sqlite_sequence w \<and>
         outbox (snd (post_orders_part_000 san e b w)) = outbox w"
  using assms by (simp add: server_invalid part_000_invalid)

text \<open>The submission with the email "not-an-email".\<close>
theorem invalid_request_rejected_witness:
  "validateInput not_an_email = Invalid ''Invalid email format.'' \<and>
   fst (post_orders_server keep_text env_ok not_an_email empty_world)
     = res 400 (ErrorJson ''Invalid email format.'') \<and>
   orders (snd (post_orders_server keep_text env_ok not_an_email empty_world)) = [] \<and>
   outbox (snd (post_orders_server keep_text env_ok not_an_email empty_world)) = [] \<and>
   fst (post_orders_part_000 keep_text env_ok not_an_email empty_world)
     = res 400 (ErrorJson ''Invalid email format.'') \<and>
   orders (snd (post_orders_part_000 keep_text env_ok not_an_email empty_world)) = [] \<and>
   outbox (snd (post_orders_part_000 keep_text env_ok not_an_email empty_world)) = []"
  using invalid_request_rejected [OF validateInput_not_an_email, of keep_text env_ok empty_world]
  by (simp add: validateInput_not_an_email empty_world_def)



text \<open>
  C6. With customer notification, a valid request whose insert succeeds and whose
  customer mail fails is answered 200 with
  "Order saved, but failed to send customer confirmation.", and its row stays in the
  table.
\<close>
theorem customer_mail_failure_degrades:
  assumes "validateInput b = Valid" and "\<not> db_err e" and "customer_mail_err e"
  shows "fst (post_orders_part_000 san e b w)
           = res 200 (MessageJson ''Order saved, but failed to send customer confirmation.'') \<and>
         orders (snd (post_orders_part_000 san e b w)) = orders w @ [sanitized_row san e w b]"
  using assms by (simp add: part_000_saved_response part_000_saved_orders)

text \<open>The example submission with a failing customer mail.\<close>
theorem customer_mail_failure_degrades_witness:
  "validateInput jane_doe = Valid \<and> \<not> db_err (env_ok\<lparr>customer_mail_err := True\<rparr>) \<and>
   customer_mail_err (env_ok\<lparr>customer_mail_err := True\<rparr>) \<and>
   fst (post_orders_part_000 keep_text (env_ok\<lparr>customer_mail_err := True\<rparr>) jane_doe empty_world)
     = res 200 (MessageJson ''Order saved, but failed to send customer confirmation.'') \<and>
   length (orders (snd (post_orders_part_000 keep_text (env_ok\<lparr>customer_mail_err := True\<rparr>)
     jane_doe empty_world))) = 1"
proof -
  have d: "\<not> db_err (env_ok\<lparr>customer_mail_err := True\<rparr>)" by (simp add: env_ok_def)
  have c: "customer_mail_err (env_ok\<lparr>customer_mail_err := True\<rparr>)" by simp
  show ?thesis
    using customer_mail_failure_degrades [OF validateInput_jane_doe d c, of keep_text empty_world]
    by (simp add: validateInput_jane_doe d empty_world_def)
qed

text \<open>
  C7. The test of the phone rule succeeds exactly when the phone, with every hyphen,
  parenthesis and whitespace character removed, is an optional leading \<open>+\<close> followed by
  10 to 15 digits; where the earlier rules pass, \<open>validateInput\<close> accordingly returns
  \<open>Valid\<close> or "Invalid phone number."; and "(555) 123-4567" passes the test.
\<close>
theorem phone_rule_matches_spec:
  assumes "name data = Some nm" "email data = Some em" "phone data = Some ph"
    "service data = Some sv" "details data = Some dt"
    "nm \<noteq> []" "em \<noteq> []" "ph \<noteq> []" "sv \<noteq> []" "dt \<noteq> []"
    "test name_re nm" "test email_re em"
  shows "(test phone_re (replace_all_empty phone_strip ph) \<longleftrightarrow> spec_phone_pattern (spec_strip ph)) \<and>
         validateInput data =
           (if spec_phone_pattern (spec_strip ph) then Valid else Invalid ''Invalid phone number.'') \<and>
         test phone_re (replace_all_empty phone_strip (ascii ''(555) 123-4567''))"
proof -
  have a: "test phone_re (replace_all_empty phone_strip ph) \<longleftrightarrow> spec_phone_pattern (spec_strip ph)"
    by (simp add: strip_eq_spec test_phone_re)
  have b: "test phone_re (replace_all_empty phone_strip (ascii ''(555) 123-4567''))"
    by code_simp
  from assms a have "validateInput data =
      (if spec_phone_pattern (spec_strip ph) then Valid else Invalid ''Invalid phone number.'')"
    by (simp add: validateInput_present [OF assms(1-10)])
  with a b show ?thesis by simp
qed

lemma test_name_jane: "test name_re (ascii ''Jane Doe'')"
  by code_simp

lemma test_email_jane: "test email_re (ascii ''jane@example.com'')"
  by code_simp

text \<open>"(555) 123-4567" is accepted, "555-1234" is rejected with the phone message.\<close>
theorem phone_rule_matches_spec_witness:
  "spec_phone_pattern (spec_strip (ascii ''(555) 123-4567'')) \<and>
   validateInput paren_phone = Valid \<and>
   \<not> spec_phone_pattern (spec_strip (ascii ''555-1234'')) \<and>
   validateInput (jane_doe\<lparr>phone := Some (ascii ''555-1234'')\<rparr>) = Invalid ''Invalid phone number.''"
proof -
  have p: "spec_phone_pattern (spec_strip (ascii ''(555) 123-4567''))"
    by code_simp
  have q: "\<not> spec_phone_pattern (spec_strip (ascii ''555-1234''))"
    by code_simp
  have "validateInput paren_phone =
      (if spec_phone_pattern (spec_strip (ascii ''(555) 123-4567'')) then Valid
       else Invalid ''Invalid phone number.'')"
    using phone_rule_matches_spec [of paren_phone "ascii ''Jane Doe''" "ascii ''jane@example.com''"
        "ascii ''(555) 123-4567''" "ascii ''Moving''" "ascii ''3 boxes''"]
      test_name_jane test_email_jane
    by (simp add: paren_phone_def jane_doe_def ascii_def)
  moreover have "validateInput (jane_doe\<lparr>phone := Some (ascii ''555-1234'')\<rparr>) =
      (if spec_phone_pattern (spec_strip (ascii ''555-1234'')) then Valid
       else Invalid ''Invalid phone number.'')"
    using phone_rule_matches_spec [of "jane_doe\<lparr>phone := Some (ascii ''555-1234'')\<rparr>"
        "ascii ''Jane Doe''" "ascii ''jane@example.com''"
        "ascii ''555-1234''" "ascii ''Moving''" "ascii ''3 boxes''"]
      test_name_jane test_email_jane
    by (simp add: jane_doe_def ascii_def)
  ultimately show ?thesis using p q by simp
qed



lemma spaces_pass_name_re: "nm \<noteq> [] \<Longrightarrow> list_all is_space nm \<Longrightarrow> test name_re nm"
  by (auto simp: test_name_re list_all_iff)

text \<open>
  C10. A submission whose service and details are non-empty and consist of whitespace
  only, whose name passes the name rule (as a non-empty whitespace-only name does) and
  whose email and phone pass their rules is \<open>Valid\<close>; when the store accepts the insert
  both variants answer 200 and store its row.
\<close>
theorem whitespace_only_fields_accepted:
  assumes "name data = Some nm" and "nm \<noteq> []" and "test name_re nm \<or> list_all is_space nm"
    and "email data = Some em" and "test email_re em"
    and "phone data = Some ph" and "test phone_re (replace_all_empty phone_strip ph)"
    and "service data = Some sv" and "sv \<noteq> []" and "list_all is_space sv"
    and "details data = Some dt" and "dt \<noteq> []" and "list_all is_space dt"
  shows "validateInput data = Valid \<and>
         (\<not> db_err e \<longrightarrow>
            status (fst (post_orders_server san e data w)) = 200 \<and>
            orders (snd (post_orders_server san e data w)) = orders w @ [sanitized_row san e w data] \<and>
            status (fst (post_orders_part_000 san e data w)) = 200 \<and>
            orders (snd (post_orders_part_000 san e data w)) = orders w @ [sanitized_row san e w data])"
proof -
  have n: "test name_re nm"
    using assms(2,3) spaces_pass_name_re by blast
  have em: "em \<noteq> []"
    using assms(5) test_email_re_Nil by blast
  have ph: "ph \<noteq> []"
  proof
    assume "ph = []"
    with assms(7) have "test phone_re []" by (simp add: replace_all_empty_def)
    then show False by (simp add: test_phone_re spec_phone_pattern_Nil)
  qed
  have v: "validateInput data = Valid"
    using assms n
    by (simp add: validateInput_present
        [OF assms(1) assms(4) assms(6) assms(8) assms(11) assms(2) em ph assms(9) assms(12)])
  then show ?thesis
    by (simp add: server_saved_response part_000_saved_response server_saved_orders
        part_000_saved_orders res_def)
qed

lemma test_phone_jane: "test phone_re (replace_all_empty phone_strip (ascii ''555-123-4567''))"
  by code_simp

text \<open>A submission whose name is a space, whose service is a space and a tab and whose
  details are a line feed.\<close>
theorem whitespace_only_fields_accepted_witness:
  "validateInput blank_order = Valid \<and>
   status (fst (post_orders_server keep_text env_ok blank_order empty_world)) = 200 \<and>
   map row_service (orders (snd (post_orders_server keep_text env_ok blank_order empty_world)))
     = [[0x20, 0x09]] \<and>
   status (fst (post_orders_part_000 keep_text env_ok blank_order empty_world)) = 200 \<and>
   map row_details (orders (snd (post_orders_part_000 keep_text env_ok blank_order empty_world)))
     = [[0x0A]]"
proof -
  have f: "name blank_order = Some [0x20]" "email blank_order = Some (ascii ''jane@example.com'')"
      "phone blank_order = Some (ascii ''555-123-4567'')"
      "service blank_order = Some [0x20, 0x09]" "details blank_order = Some [0x0A]"
    by (simp_all add: blank_order_def jane_doe_def ascii_def)
  have s: "list_all is_space [0x20]" "list_all is_space [0x20, 0x09]" "list_all is_space [0x0A]"
    by (simp_all add: is_space_def)
  have n: "test name_re [0x20] \<or> list_all is_space [0x20]"
    using s(1) by simp
  have d: "\<not> db_err env_ok" by (simp add: env_ok_def)
  have r: "row_service (sanitized_row keep_text env_ok empty_world blank_order) = [0x20, 0x09]"
      "row_details (sanitized_row keep_text env_ok empty_world blank_order) = [0x0A]"
    by (simp_all add: sanitized_row_def keep_text_def f)
  have e: "orders empty_world = []" by (simp add: empty_world_def)
  from whitespace_only_fields_accepted [OF f(1) _ n f(2) test_email_jane f(3) test_phone_jane
      f(4) _ s(2) f(5) _ s(3), of env_ok keep_text empty_world]
  show ?thesis
    using d r e by simp
qed

end
